theory Spec2Isabelle
  imports Main
begin

section \<open>JavaScript values\<close>

text \<open>
  The values that the three parsers (\<^verbatim>\<open>yaml.parse\<close>, smol-toml's \<^verbatim>\<open>parse\<close>,
  \<^verbatim>\<open>JSON.parse\<close>) can hand to \<^verbatim>\<open>scaffold.ts\<close>, and the value of a missing property.
  A string is a list of code units below 256; a number is an integer (only its being
  zero or not is ever looked at; \<^verbatim>\<open>NaN\<close>, falsy as zero is, has no counterpart); an
  object is its list of own properties in insertion order (a date of TOML, an object
  without the properties read here, behaves as \<open>JObj []\<close>).
\<close>

datatype jsval =
    JUndefined
  | JNull
  | JBool bool
  | JNum int
  | JStr string
  | JArr "jsval list"
  | JObj "(string \<times> jsval) list"

datatype exn =
    TypeError
  | ParseError string
  | IOError string
  | Error string

text \<open>JavaScript's \<^verbatim>\<open>ToBoolean\<close>, as used by \<^verbatim>\<open>||\<close> and \<^verbatim>\<open>!\<close>.\<close>

fun truthy :: "jsval \<Rightarrow> bool" where
  "truthy JUndefined = False"
| "truthy JNull = False"
| "truthy (JBool b) = b"
| "truthy (JNum n) = (n \<noteq> 0)"
| "truthy (JStr s) = (s \<noteq> [])"
| "truthy (JArr xs) = True"
| "truthy (JObj kvs) = True"

text \<open>\<^verbatim>\<open>Array.isArray\<close>.\<close>

fun isArray :: "jsval \<Rightarrow> bool" where
  "isArray (JArr xs) = True"
| "isArray v = False"

text \<open>
  Property read \<^verbatim>\<open>v.name\<close> for a name that no prototype defines (\<^verbatim>\<open>key\<close>,
  \<^verbatim>\<open>dynamics\<close>): reading from \<^verbatim>\<open>undefined\<close> or \<^verbatim>\<open>null\<close> throws a TypeError, an object
  gives its own property or \<^verbatim>\<open>undefined\<close>, every other value gives \<^verbatim>\<open>undefined\<close>.
\<close>

fun get_prop :: "jsval \<Rightarrow> string \<Rightarrow> exn + jsval" where
  "get_prop JUndefined name = Inl TypeError"
| "get_prop JNull name = Inl TypeError"
| "get_prop (JObj kvs) name = (case map_of kvs name of None \<Rightarrow> Inr JUndefined | Some v \<Rightarrow> Inr v)"
| "get_prop v name = Inr JUndefined"

text \<open>
  \<^verbatim>\<open>Array.prototype.findIndex\<close>: the index of the first element on which the callback
  returns true, \<open>-1\<close> when there is none; an exception of the callback ends the scan.
\<close>

fun findIndex :: "('a \<Rightarrow> exn + bool) \<Rightarrow> 'a list \<Rightarrow> exn + int" where
  "findIndex p [] = Inr (- 1)"
| "findIndex p (x # xs) =
     (case p x of
        Inl e \<Rightarrow> Inl e
      | Inr found \<Rightarrow>
          if found then Inr 0
          else (case findIndex p xs of
                  Inl e \<Rightarrow> Inl e
                | Inr i \<Rightarrow> Inr (if i = - 1 then - 1 else i + 1)))"

section \<open>Registry records\<close>

text \<open>\<^verbatim>\<open>interface DynamicsData\<close>; the field \<^verbatim>\<open>_mergePartial\<close> is \<open>mergePartial\<close> here.\<close>

record DynamicsData =
  key :: string
  mergePartial :: string
  content_type :: string

text \<open>The object a \<^verbatim>\<open>DynamicsData\<close> literal evaluates to.\<close>

definition DynamicsData_object :: "DynamicsData \<Rightarrow> jsval" where
  "DynamicsData_object d =
     JObj [(''key'', JStr (key d)),
           (''_mergePartial'', JStr (mergePartial d)),
           (''content_type'', JStr (content_type d))]"

section \<open>The merge step of \<^verbatim>\<open>updateDynamicsFile\<close>\<close>

text \<open>The callback \<^verbatim>\<open>entry => entry.key === newDynamicsData.key\<close>.\<close>

definition entry_key_is :: "string \<Rightarrow> jsval \<Rightarrow> exn + bool" where
  "entry_key_is k entry =
     (case get_prop entry ''key'' of Inl e \<Rightarrow> Inl e | Inr v \<Rightarrow> Inr (v = JStr k))"

datatype merged = Declined | Replaced jsval | Added jsval

text \<open>
  Lines 182 to 207 of \<^verbatim>\<open>scaffold.ts\<close>: the search for the new key in the decoded
  array, then replacement in place (when the overwrite prompt is accepted), abort (when
  it is declined) or \<^verbatim>\<open>push\<close>. \<open>ov\<close> is the answer the overwrite prompt gives when it
  is asked. Calling \<^verbatim>\<open>findIndex\<close> on a value that is not an array throws a TypeError.
\<close>

definition merge_step :: "bool \<Rightarrow> jsval \<Rightarrow> DynamicsData \<Rightarrow> exn + merged" where
  "merge_step ov dynamicsArray newDynamicsData =
     (case dynamicsArray of
        JArr entries \<Rightarrow>
          (case findIndex (entry_key_is (key newDynamicsData)) entries of
             Inl e \<Rightarrow> Inl e
           | Inr existingEntryIndex \<Rightarrow>
               if existingEntryIndex \<noteq> - 1 then
                 (if \<not> ov then Inr Declined
                  else Inr (Replaced (JArr (entries[nat existingEntryIndex :=
                                              DynamicsData_object newDynamicsData]))))
               else Inr (Added (JArr (entries @ [DynamicsData_object newDynamicsData]))))
      | _ \<Rightarrow> Inl TypeError)"

section \<open>Strings and paths\<close>

text \<open>
  The white space that \<^verbatim>\<open>String.prototype.trim\<close> strips, among the code units below
  256: tab, line feed, vertical tab, form feed, carriage return, space and the
  no-break space.
\<close>

definition is_ws :: "char \<Rightarrow> bool" where
  "is_ws c \<longleftrightarrow> c \<in> {CHR 0x09, CHR 0x0A, CHR 0x0B, CHR 0x0C, CHR 0x0D, CHR 0x20, CHR 0xA0}"

definition trim :: "string \<Rightarrow> string" where
  "trim s = rev (dropWhile is_ws (rev (dropWhile is_ws s)))"

text \<open>\<^verbatim>\<open>s.replace(/_/g, '')\<close> and \<^verbatim>\<open>s.replace(/_/g, '-')\<close>.\<close>

definition remove_underscores :: "string \<Rightarrow> string" where
  "remove_underscores s = filter (\<lambda>c. c \<noteq> CHR ''_'') s"

definition underscores_to_dashes :: "string \<Rightarrow> string" where
  "underscores_to_dashes s = map (\<lambda>c. if c = CHR ''_'' then CHR ''-'' else c) s"

text \<open>
  \<^verbatim>\<open>path.join\<close> on POSIX: the non-empty segments joined by a slash. Node then
  normalises the result (\<^verbatim>\<open>.\<close>, \<^verbatim>\<open>..\<close> and doubled slashes); that step is the
  identity when every segment is a plain name or a path already normal, and is left
  out here.
\<close>

fun join_slash :: "string list \<Rightarrow> string" where
  "join_slash [] = ''.''"
| "join_slash [p] = p"
| "join_slash (p # ps) = p @ ''/'' @ join_slash ps"

definition path_join :: "string list \<Rightarrow> string" where
  "path_join segments = join_slash (filter (\<lambda>p. p \<noteq> []) segments)"

text \<open>\<^verbatim>\<open>path.dirname\<close> of a relative path without a trailing slash.\<close>

definition path_dirname :: "string \<Rightarrow> string" where
  "path_dirname p =
     (if CHR ''/'' \<in> set p then rev (tl (dropWhile (\<lambda>c. c \<noteq> CHR ''/'') (rev p))) else ''.'')"

text \<open>A path and the directories above it, outermost first.\<close>

definition path_prefixes :: "string \<Rightarrow> string list" where
  "path_prefixes p = [take i p. i \<leftarrow> [1..<length p], p ! i = CHR ''/''] @ [p]"

section \<open>Formats, libraries, console and file system\<close>

datatype file_type = yaml | toml | json

text \<open>The text of \<^verbatim>\<open>${this.fileType}\<close>.\<close>

fun file_type_name :: "file_type \<Rightarrow> string" where
  "file_type_name yaml = ''yaml''"
| "file_type_name toml = ''toml''"
| "file_type_name json = ''json''"

text \<open>
  The codecs are libraries, not code of \<^verbatim>\<open>scaffold.ts\<close>: \<^verbatim>\<open>yaml.parse\<close> and
  \<^verbatim>\<open>yaml.stringify\<close>, smol-toml's \<^verbatim>\<open>parse\<close> and \<^verbatim>\<open>stringify\<close>, \<^verbatim>\<open>JSON.parse\<close> and
  \<^verbatim>\<open>JSON.stringify(v, null, 2)\<close>. They are parameters of the model. A parser
  returns a value or throws; an encoder is taken to return text on every value this
  program passes to it.
\<close>

record codecs =
  yaml_parse :: "string \<Rightarrow> exn + jsval"
  yaml_stringify :: "jsval \<Rightarrow> string"
  parseToml :: "string \<Rightarrow> exn + jsval"
  stringifyToml :: "jsval \<Rightarrow> string"
  JSON_parse :: "string \<Rightarrow> exn + jsval"
  JSON_stringify :: "jsval \<Rightarrow> string"

text \<open>One constructor for each \<^verbatim>\<open>console.log\<close> and \<^verbatim>\<open>console.error\<close> of the class.\<close>

datatype message =
    CreatedDirectory string
  | CreatedContentFile file_type string
  | ErrorParsing file_type exn
  | SkippingDynamicsUpdate
  | ReplacedEntry string
  | AddedEntry string
  | CreatedDynamicsFile string
  | ThemesDirectoryMissing
  | NoThemeDirectories
  | UsingTheme string
  | SkippingHtml
  | CreatedHtml string
  | ErrorCreatingHtml exn
  | ScaffoldingBlock string
  | UsingFileType file_type
  | Rule
  | Scaffolded string
  | FilesHeader
  | SummaryLine string
  | ErrorScaffolding exn

text \<open>
  The world a run acts on: the text of every regular file by path, the directories (in
  the order \<^verbatim>\<open>readdirSync\<close> lists them) and what was printed. A call of \<^verbatim>\<open>fs\<close> fails
  for the shape of the tree only (a regular file where a directory is needed, a
  directory where a file is written or read, a missing parent); permissions and a full
  disk are outside the model. \<open>IOError\<close> carries the path at fault.
\<close>

record world =
  files :: "string \<rightharpoonup> string"
  dirs :: "string list"
  console :: "message list"

definition console_log :: "message \<Rightarrow> world \<Rightarrow> world" where
  "console_log m w = w\<lparr>console := console w @ [m]\<rparr>"

definition existsSync :: "world \<Rightarrow> string \<Rightarrow> bool" where
  "existsSync w p \<longleftrightarrow> files w p \<noteq> None \<or> p \<in> set (dirs w)"

text \<open>
  \<^verbatim>\<open>fs.mkdirSync(p, { recursive: true })\<close>: it throws (\<^verbatim>\<open>ENOTDIR\<close>, or \<^verbatim>\<open>EEXIST\<close> for \<open>p\<close>
  itself) when \<open>p\<close> or a directory above it is a regular file, and then makes nothing;
  otherwise it makes \<open>p\<close> and the directories above it that are missing.
\<close>

definition mkdirSync :: "string \<Rightarrow> world \<Rightarrow> exn + world" where
  "mkdirSync p w =
     (case filter (\<lambda>d. files w d \<noteq> None) (path_prefixes p) of
        [] \<Rightarrow> Inr (w\<lparr>dirs := dirs w @ filter (\<lambda>d. d \<notin> set (dirs w)) (path_prefixes p)\<rparr>)
      | d # ds \<Rightarrow> Inl (IOError d))"

text \<open>
  \<^verbatim>\<open>fs.writeFileSync(p, content, 'utf8')\<close>: a regular file at \<open>p\<close> is rewritten; where
  there is none, it throws when \<open>p\<close> is a directory (\<^verbatim>\<open>EISDIR\<close>) or when the directory
  of \<open>p\<close> is missing or is a regular file (\<^verbatim>\<open>ENOENT\<close>, \<^verbatim>\<open>ENOTDIR\<close>), and creates the file
  otherwise. The working directory, \<^verbatim>\<open>.\<close>, is always there.
\<close>

definition writeFileSync :: "string \<Rightarrow> string \<Rightarrow> world \<Rightarrow> exn + world" where
  "writeFileSync p content w =
     (if files w p \<noteq> None then Inr (w\<lparr>files := (files w)(p \<mapsto> content)\<rparr>)
      else if p \<in> set (dirs w) then Inl (IOError p)
      else if path_dirname p \<noteq> ''.'' \<and> path_dirname p \<notin> set (dirs w) then
        Inl (IOError (path_dirname p))
      else Inr (w\<lparr>files := (files w)(p \<mapsto> content)\<rparr>))"

text \<open>
  \<^verbatim>\<open>fs.readFileSync(p, 'utf8')\<close>: it throws when there is no regular file at \<open>p\<close>
  (\<^verbatim>\<open>ENOENT\<close>, or \<^verbatim>\<open>EISDIR\<close> for a directory).
\<close>

definition readFileSync :: "world \<Rightarrow> string \<Rightarrow> exn + string" where
  "readFileSync w p = (case files w p of None \<Rightarrow> Inl (IOError p) | Some content \<Rightarrow> Inr content)"

text \<open>
  \<^verbatim>\<open>readdirSync(d, { withFileTypes: true })\<close> filtered to directories and mapped to
  their names; it throws when \<open>d\<close> is not a directory.
\<close>

definition child_directories :: "world \<Rightarrow> string \<Rightarrow> exn + string list" where
  "child_directories w d =
     (if d \<notin> set (dirs w) then Inl (IOError d)
      else Inr [drop (length d + 1) p. p \<leftarrow> dirs w,
                  take (length d + 1) p = d @ ''/'',
                  drop (length d + 1) p \<noteq> [],
                  CHR ''/'' \<notin> set (drop (length d + 1) p)])"

text \<open>
  The answers of the person at the terminal, one field for each prompt of the class.
  A confirm prompt that is cancelled gives \<^verbatim>\<open>undefined\<close>, which the code treats as
  a refusal: both are \<open>False\<close>. A text or select prompt that is cancelled is \<open>None\<close>.
\<close>

record answers =
  createFile :: bool
  overwriteEntry :: bool
  themeName :: "string option"
  selectTheme :: "string option"
  overwriteHtml :: bool

section \<open>The class \<^verbatim>\<open>ContentBlockScaffolder\<close>\<close>

record ContentBlockScaffolder =
  blockName :: string
  blockNameWithoutUnderscores :: string
  blockNameWithDashes :: string
  fileType :: file_type
  selectedTheme :: "string option"

definition detectFileType :: "world \<Rightarrow> file_type" where
  "detectFileType w =
     (let dynamicsDir = path_join [''quiqr'', ''model'', ''includes''] in
      if existsSync w (path_join [dynamicsDir, ''dynamics.toml'']) then toml
      else if existsSync w (path_join [dynamicsDir, ''dynamics.json'']) then json
      else if existsSync w (path_join [dynamicsDir, ''dynamics.yaml'']) then yaml
      else yaml)"

text \<open>The constructor; \<open>None\<close> is a call without the format flag.\<close>

definition new_ContentBlockScaffolder ::
  "world \<Rightarrow> string \<Rightarrow> file_type option \<Rightarrow> ContentBlockScaffolder" where
  "new_ContentBlockScaffolder w name ft =
     \<lparr>blockName = name,
      blockNameWithoutUnderscores = remove_underscores name,
      blockNameWithDashes = underscores_to_dashes name,
      fileType = (case ft of Some t \<Rightarrow> t | None \<Rightarrow> detectFileType w),
      selectedTheme = None\<rparr>"

text \<open>
  The methods that act on the world return the exception that escapes them, if any,
  and the world at that moment.
\<close>

definition ensureDirectoryExists :: "string \<Rightarrow> world \<Rightarrow> exn option \<times> world" where
  "ensureDirectoryExists dirPath w =
     (if \<not> existsSync w dirPath then
        (case mkdirSync dirPath w of
           Inl e \<Rightarrow> (Some e, w)
         | Inr w1 \<Rightarrow> (None, console_log (CreatedDirectory dirPath) w1))
      else (None, w))"

definition contentData :: jsval where
  "contentData =
     JObj [(''fields'',
            JArr [JObj [(''key'', JStr []), (''title'', JStr []), (''type'', JStr [])]])]"

definition createContentFile ::
  "ContentBlockScaffolder \<Rightarrow> codecs \<Rightarrow> world \<Rightarrow> exn option \<times> world" where
  "createContentFile this L w =
     (let contentDir = path_join [''quiqr'', ''model'', ''partials''];
          contentFilePath =
            path_join [contentDir, blockName this @ ''.'' @ file_type_name (fileType this)]
      in case ensureDirectoryExists contentDir w of
           (Some e, w1) \<Rightarrow> (Some e, w1)
         | (None, w1) \<Rightarrow>
             (let content = (case fileType this of
                               yaml \<Rightarrow> yaml_stringify L contentData
                             | toml \<Rightarrow> stringifyToml L contentData
                             | json \<Rightarrow> JSON_stringify L contentData)
              in case writeFileSync contentFilePath content w1 of
                   Inl e \<Rightarrow> (Some e, w1)
                 | Inr w2 \<Rightarrow>
                     (None, console_log (CreatedContentFile (fileType this) contentFilePath) w2)))"

text \<open>
  \<^verbatim>\<open>parseDynamicsFile\<close>. The body of the \<^verbatim>\<open>try\<close> is \<open>parseDynamicsFile_try\<close>; the
  \<^verbatim>\<open>catch\<close> prints the error and returns the empty array.
\<close>

definition parseDynamicsFile_try :: "ContentBlockScaffolder \<Rightarrow> codecs \<Rightarrow> string \<Rightarrow> exn + jsval" where
  "parseDynamicsFile_try this L content =
     (case fileType this of
        yaml \<Rightarrow>
          (case yaml_parse L content of
             Inl e \<Rightarrow> Inl e
           | Inr yamlData \<Rightarrow> Inr (if isArray yamlData then yamlData else JArr []))
      | toml \<Rightarrow>
          (case parseToml L content of
             Inl e \<Rightarrow> Inl e
           | Inr tomlData \<Rightarrow>
               (case get_prop tomlData ''dynamics'' of
                  Inl e \<Rightarrow> Inl e
                | Inr dynamics \<Rightarrow> Inr (if truthy dynamics then dynamics else JArr [])))
      | json \<Rightarrow>
          (case JSON_parse L content of
             Inl e \<Rightarrow> Inl e
           | Inr jsonData \<Rightarrow> Inr (if isArray jsonData then jsonData else JArr [])))"

definition parseDynamicsFile ::
  "ContentBlockScaffolder \<Rightarrow> codecs \<Rightarrow> string \<Rightarrow> world \<Rightarrow> jsval \<times> world" where
  "parseDynamicsFile this L content w =
     (if trim content = [] then (JArr [], w)
      else (case parseDynamicsFile_try this L content of
              Inr data \<Rightarrow> (data, w)
            | Inl error \<Rightarrow> (JArr [], console_log (ErrorParsing (fileType this) error) w)))"

definition stringifyDynamicsData :: "ContentBlockScaffolder \<Rightarrow> codecs \<Rightarrow> jsval \<Rightarrow> string" where
  "stringifyDynamicsData this L data =
     (case fileType this of
        yaml \<Rightarrow> yaml_stringify L data
      | toml \<Rightarrow> stringifyToml L (JObj [(''dynamics'', data)])
      | json \<Rightarrow> JSON_stringify L data)"

definition dynamicsFilePath :: "ContentBlockScaffolder \<Rightarrow> string" where
  "dynamicsFilePath this =
     path_join [''quiqr'', ''model'', ''includes'', ''dynamics.'' @ file_type_name (fileType this)]"

definition newDynamicsData :: "ContentBlockScaffolder \<Rightarrow> DynamicsData" where
  "newDynamicsData this =
     \<lparr>key = ''dynbx'' @ blockNameWithoutUnderscores this,
      mergePartial = blockName this,
      content_type = blockName this\<rparr>"

text \<open>
  Lines 214 and 215, the end of \<^verbatim>\<open>updateDynamicsFile\<close> on every path that reaches it:
  the array is encoded and the registry file written in full.
\<close>

definition writeDynamicsFile ::
  "ContentBlockScaffolder \<Rightarrow> codecs \<Rightarrow> jsval \<Rightarrow> world \<Rightarrow> exn option \<times> world" where
  "writeDynamicsFile this L dynamicsArray w =
     (let updatedContent = stringifyDynamicsData this L dynamicsArray
      in case writeFileSync (dynamicsFilePath this) updatedContent w of
           Inl e \<Rightarrow> (Some e, w)
         | Inr w1 \<Rightarrow> (None, w1))"

text \<open>\<^verbatim>\<open>updateDynamicsFile\<close>.\<close>

definition updateDynamicsFile ::
  "ContentBlockScaffolder \<Rightarrow> codecs \<Rightarrow> answers \<Rightarrow> world \<Rightarrow> exn option \<times> world" where
  "updateDynamicsFile this L ans w =
     (let fileExists = existsSync w (dynamicsFilePath this) in
      if \<not> fileExists \<and> \<not> createFile ans then (None, console_log SkippingDynamicsUpdate w)
      else
        (case (if \<not> fileExists
               then ensureDirectoryExists (path_dirname (dynamicsFilePath this)) w
               else (None, w)) of
           (Some e, w1) \<Rightarrow> (Some e, w1)
         | (None, w1) \<Rightarrow>
             if fileExists then
               (case readFileSync w1 (dynamicsFilePath this) of
                  Inl e \<Rightarrow> (Some e, w1)
                | Inr existingContent \<Rightarrow>
                    (case parseDynamicsFile this L existingContent w1 of
                       (dynamicsArray, w2) \<Rightarrow>
                         (case merge_step (overwriteEntry ans) dynamicsArray (newDynamicsData this) of
                            Inl e \<Rightarrow> (Some e, w2)
                          | Inr Declined \<Rightarrow> (None, console_log SkippingDynamicsUpdate w2)
                          | Inr (Replaced updated) \<Rightarrow>
                              writeDynamicsFile this L updated
                                (console_log (ReplacedEntry (dynamicsFilePath this)) w2)
                          | Inr (Added updated) \<Rightarrow>
                              writeDynamicsFile this L updated
                                (console_log (AddedEntry (dynamicsFilePath this)) w2))))
             else
               writeDynamicsFile this L (JArr [DynamicsData_object (newDynamicsData this)])
                 (console_log (CreatedDynamicsFile (dynamicsFilePath this)) w1)))"

text \<open>
  The text prompt for a theme name, followed by the check \<^verbatim>\<open>!response.themeName\<close>
  (a missing or empty answer throws) and the \<^verbatim>\<open>trim\<close>.
\<close>

definition askThemeName :: "answers \<Rightarrow> exn + string" where
  "askThemeName ans =
     (case themeName ans of
        None \<Rightarrow> Inl (Error ''Theme name is required'')
      | Some name \<Rightarrow> if name = [] then Inl (Error ''Theme name is required'') else Inr (trim name))"

definition getThemeDirectory :: "answers \<Rightarrow> world \<Rightarrow> (exn + string) \<times> world" where
  "getThemeDirectory ans w =
     (let themesDir = ''themes'' in
      if \<not> existsSync w themesDir then (askThemeName ans, console_log ThemesDirectoryMissing w)
      else
        (case child_directories w themesDir of
           Inl e \<Rightarrow> (Inl e, w)
         | Inr themeDirectories \<Rightarrow>
             if length themeDirectories = 0 then (askThemeName ans, console_log NoThemeDirectories w)
             else if length themeDirectories = 1 then
               (Inr (hd themeDirectories), console_log (UsingTheme (hd themeDirectories)) w)
             else
               (case selectTheme ans of
                  None \<Rightarrow> (Inl (Error ''Theme selection is required''), w)
                | Some selected \<Rightarrow>
                    if selected = [] then (Inl (Error ''Theme selection is required''), w)
                    else if selected = ''__create_new__'' then (askThemeName ans, w)
                    else (Inr selected, w))))"

definition htmlContent :: "ContentBlockScaffolder \<Rightarrow> string" where
  "htmlContent this =
     ''<!-- '' @ blockName this @ '' block template -->'' @ [CHR 0x0A] @
     ''  <div class='' @ [CHR 0x22] @ blockNameWithDashes this @ ''-block'' @ [CHR 0x22] @ ''>'' @ [CHR 0x0A] @
     ''    <!-- Add your '' @ blockName this @ '' block content here -->'' @ [CHR 0x0A] @
     ''  </div>'' @ [CHR 0x0A] @
     ''  ''"

text \<open>
  \<^verbatim>\<open>createHtmlFile\<close>: the escaping exception (printed and thrown again by the
  \<^verbatim>\<open>catch\<close>), the object with \<^verbatim>\<open>selectedTheme\<close> assigned, and the world.
\<close>

definition createHtmlFile ::
  "ContentBlockScaffolder \<Rightarrow> answers \<Rightarrow> world \<Rightarrow> exn option \<times> ContentBlockScaffolder \<times> world" where
  "createHtmlFile this ans w =
     (case getThemeDirectory ans w of
        (Inl error, w1) \<Rightarrow> (Some error, this, console_log (ErrorCreatingHtml error) w1)
      | (Inr theme, w1) \<Rightarrow>
          (let this1 = this\<lparr>selectedTheme := Some theme\<rparr>;
               htmlDir = path_join [''themes'', theme, ''layouts'', ''partials'', ''content_blocks''];
               htmlFilePath = path_join [htmlDir, blockNameWithDashes this @ ''.html'']
           in case ensureDirectoryExists htmlDir w1 of
                (Some error, w2) \<Rightarrow> (Some error, this1, console_log (ErrorCreatingHtml error) w2)
              | (None, w2) \<Rightarrow>
                  if existsSync w2 htmlFilePath \<and> \<not> overwriteHtml ans then
                    (None, this1, console_log SkippingHtml w2)
                  else
                    (case writeFileSync htmlFilePath (htmlContent this) w2 of
                       Inl error \<Rightarrow> (Some error, this1, console_log (ErrorCreatingHtml error) w2)
                     | Inr w3 \<Rightarrow> (None, this1, console_log (CreatedHtml htmlFilePath) w3))))"

text \<open>\<^verbatim>\<open>scaffold\<close>: the exit status (1 after \<^verbatim>\<open>process.exit(1)\<close>) and the world.\<close>

definition scaffold ::
  "ContentBlockScaffolder \<Rightarrow> codecs \<Rightarrow> answers \<Rightarrow> world \<Rightarrow> nat \<times> world" where
  "scaffold this L ans w =
     (let w0 = console_log Rule
                 (console_log (UsingFileType (fileType this))
                    (console_log (ScaffoldingBlock (blockName this)) w))
      in case createContentFile this L w0 of
           (Some error, w1) \<Rightarrow> (1, console_log (ErrorScaffolding error) w1)
         | (None, w1) \<Rightarrow>
             (case updateDynamicsFile this L ans w1 of
                (Some error, w2) \<Rightarrow> (1, console_log (ErrorScaffolding error) w2)
              | (None, w2) \<Rightarrow>
                  (case createHtmlFile this ans w2 of
                     (Some error, this3, w3) \<Rightarrow> (1, console_log (ErrorScaffolding error) w3)
                   | (None, this3, w3) \<Rightarrow>
                       (0,
                        console_log (SummaryLine (''quiqr/model/includes/dynamics.''
                                       @ file_type_name (fileType this3)))
                          (console_log (SummaryLine (''themes/''
                                          @ (case selectedTheme this3 of
                                               None \<Rightarrow> ''undefined'' | Some t \<Rightarrow> t)
                                          @ ''/partials/content_blocks/'' @ blockNameWithDashes this3
                                          @ ''.html''))
                             (console_log (SummaryLine (''quiqr/model/partials/'' @ blockName this3
                                              @ ''.'' @ file_type_name (fileType this3)))
                                (console_log FilesHeader
                                   (console_log (Scaffolded (blockName this3))
                                      (console_log Rule w3)))))))))"

section \<open>Registries of records\<close>

text \<open>The position of the first record of \<open>rs\<close> whose key is \<open>k\<close>.\<close>

definition first_index :: "string \<Rightarrow> DynamicsData list \<Rightarrow> nat" where
  "first_index k rs = length (takeWhile (\<lambda>r. key r \<noteq> k) rs)"


section \<open>What the libraries are asked for\<close>

text \<open>The parser that \<^verbatim>\<open>parseDynamicsFile\<close> calls for a format.\<close>

definition library_parse :: "codecs \<Rightarrow> file_type \<Rightarrow> string \<Rightarrow> exn + jsval" where
  "library_parse L ft =
     (case ft of yaml \<Rightarrow> yaml_parse L | toml \<Rightarrow> parseToml L | json \<Rightarrow> JSON_parse L)"

text \<open>
  A theme name on which \<^verbatim>\<open>path.join\<close> has nothing to normalise: one non-empty
  segment other than \<^verbatim>\<open>.\<close> and \<^verbatim>\<open>..\<close>.
\<close>

definition plain_name :: "string \<Rightarrow> bool" where
  "plain_name name \<longleftrightarrow> name \<noteq> [] \<and> CHR ''/'' \<notin> set name \<and> name \<noteq> ''.'' \<and> name \<noteq> ''..''"

text \<open>A project directory with nothing in it, and nothing printed yet.\<close>

definition empty_project :: world where
  "empty_project = \<lparr>files = Map.empty, dirs = [], console = []\<rparr>"

section \<open>Properties of the merge step\<close>

lemma entry_key_is_object [simp]:
  "entry_key_is k (DynamicsData_object r) = Inr (key r = k)"
  by (simp add: entry_key_is_def DynamicsData_object_def)

lemma findIndex_records:
  "findIndex (entry_key_is k) (map DynamicsData_object rs) =
     Inr (if k \<in> set (map key rs) then int (first_index k rs) else - 1)"
  by (induction rs) (auto simp: first_index_def)

lemma first_index_less:
  "k \<in> set (map key rs) \<Longrightarrow> first_index k rs < length rs"
  unfolding first_index_def
  by (induction rs) auto

lemma first_index_key:
  "k \<in> set (map key rs) \<Longrightarrow> key (rs ! first_index k rs) = k"
  unfolding first_index_def
  by (induction rs) auto

lemma merge_step_records:
  "merge_step ov (JArr (map DynamicsData_object rs)) r =
     (if key r \<in> set (map key rs) then
        (if ov then Inr (Replaced (JArr (map DynamicsData_object (rs[first_index (key r) rs := r]))))
         else Inr Declined)
      else Inr (Added (JArr (map DynamicsData_object (rs @ [r])))))"
  by (simp add: merge_step_def findIndex_records map_update)

lemma map_key_update_same:
  assumes "k \<in> set (map key rs)" and "key r = k"
  shows "map key (rs[first_index k rs := r]) = map key rs"
proof -
  have "(map key rs)[first_index k rs := key r] = map key rs"
    using assms first_index_key [OF assms(1)] first_index_less [OF assms(1)]
    by (simp add: list_update_same_conv)
  then show ?thesis by (simp add: map_update)
qed





section \<open>Key uniqueness\<close>

text \<open>
  Claim C1. On a registry whose record keys are all distinct, the merge step with any
  new record never throws. It aborts only when the key is present and the overwrite is
  declined; it replaces only when the key is present and the overwrite is accepted, and
  appends only when the key is absent. The array it yields is again an array of records
  whose keys are all distinct, as long as the old one on replacement and one longer on
  appending.
\<close>

theorem upsert_preserves_unique_keys:
  assumes "distinct (map key rs)"
  shows "case merge_step ov (JArr (map DynamicsData_object rs)) r of
           Inl e \<Rightarrow> False
         | Inr Declined \<Rightarrow> \<not> ov \<and> key r \<in> set (map key rs)
         | Inr (Replaced updated) \<Rightarrow>
             ov \<and> key r \<in> set (map key rs) \<and>
             (\<exists>rs'. updated = JArr (map DynamicsData_object rs') \<and>
                    length rs' = length rs \<and> distinct (map key rs'))
         | Inr (Added updated) \<Rightarrow>
             key r \<notin> set (map key rs) \<and>
             (\<exists>rs'. updated = JArr (map DynamicsData_object rs') \<and>
                    length rs' = length rs + 1 \<and> distinct (map key rs'))"
proof (cases "key r \<in> set (map key rs)")
  case True
  let ?rs' = "rs[first_index (key r) rs := r]"
  have "distinct (map key ?rs')"
    using True assms by (simp add: map_key_update_same)
  then have "\<exists>rs'. JArr (map DynamicsData_object ?rs') = JArr (map DynamicsData_object rs') \<and>
                  length rs' = length rs \<and> distinct (map key rs')"
    by (intro exI [of _ ?rs']) simp
  with True show ?thesis
    by (simp add: merge_step_records)
next
  case False
  let ?rs' = "rs @ [r]"
  have "distinct (map key ?rs')"
    using False assms by simp
  then have "\<exists>rs'. JArr (map DynamicsData_object ?rs') = JArr (map DynamicsData_object rs') \<and>
                  length rs' = length rs + 1 \<and> distinct (map key rs')"
    by (intro exI [of _ ?rs']) simp
  with False show ?thesis
    by (simp only: merge_step_records if_False sum.case merged.case) simp
qed

theorem upsert_preserves_unique_keys_witness:
  "distinct (map key [\<lparr>key = ''dynbxa'', mergePartial = ''a'', content_type = ''a''\<rparr>,
                      \<lparr>key = ''dynbxb'', mergePartial = ''b'', content_type = ''b''\<rparr>]) \<and>
   (case merge_step True
           (JArr (map DynamicsData_object
                    [\<lparr>key = ''dynbxa'', mergePartial = ''a'', content_type = ''a''\<rparr>,
                     \<lparr>key = ''dynbxb'', mergePartial = ''b'', content_type = ''b''\<rparr>]))
           \<lparr>key = ''dynbxb'', mergePartial = ''b2'', content_type = ''b2''\<rparr> of
      Inl e \<Rightarrow> False
    | Inr Declined \<Rightarrow> False
    | Inr (Replaced updated) \<Rightarrow>
        updated = JArr (map DynamicsData_object
                    [\<lparr>key = ''dynbxa'', mergePartial = ''a'', content_type = ''a''\<rparr>,
                     \<lparr>key = ''dynbxb'', mergePartial = ''b2'', content_type = ''b2''\<rparr>])
    | Inr (Added updated) \<Rightarrow> False)"
  using upsert_preserves_unique_keys
    [of "[\<lparr>key = ''dynbxa'', mergePartial = ''a'', content_type = ''a''\<rparr>,
          \<lparr>key = ''dynbxb'', mergePartial = ''b'', content_type = ''b''\<rparr>]"
        True "\<lparr>key = ''dynbxb'', mergePartial = ''b2'', content_type = ''b2''\<rparr>"]
  by (simp add: merge_step_def entry_key_is_def DynamicsData_object_def)

section \<open>Frame of the merge step\<close>

text \<open>
  Claim C6. When no record has the new key, the merged array is the old one with the
  new record appended, so every earlier record keeps its value and position. When the
  key is found and the overwrite is accepted, the merged array has the old length, holds
  the new record at the index of the first record with that key, and agrees with the old
  array at every other index.
\<close>

theorem merge_step_frame:
  "(key r \<notin> set (map key rs) \<longrightarrow>
      merge_step ov (JArr (map DynamicsData_object rs)) r
        = Inr (Added (JArr (map DynamicsData_object rs @ [DynamicsData_object r])))) \<and>
   (key r \<in> set (map key rs) \<and> ov \<longrightarrow>
      first_index (key r) rs < length rs \<and>
      key (rs ! first_index (key r) rs) = key r \<and>
      (\<exists>ys. merge_step ov (JArr (map DynamicsData_object rs)) r = Inr (Replaced (JArr ys)) \<and>
            length ys = length rs \<and>
            ys ! first_index (key r) rs = DynamicsData_object r \<and>
            (\<forall>j < length rs. j \<noteq> first_index (key r) rs \<longrightarrow> ys ! j = DynamicsData_object (rs ! j))))"
proof (intro conjI impI)
  assume "key r \<notin> set (map key rs)"
  then show "merge_step ov (JArr (map DynamicsData_object rs)) r
        = Inr (Added (JArr (map DynamicsData_object rs @ [DynamicsData_object r])))"
    by (simp add: merge_step_records)
next
  assume h: "key r \<in> set (map key rs) \<and> ov"
  then show "first_index (key r) rs < length rs" by (simp add: first_index_less)
  from h show "key (rs ! first_index (key r) rs) = key r" by (simp add: first_index_key)
  from h have i: "first_index (key r) rs < length rs" by (simp add: first_index_less)
  from h have m: "merge_step ov (JArr (map DynamicsData_object rs)) r
      = Inr (Replaced (JArr ((map DynamicsData_object rs)[first_index (key r) rs := DynamicsData_object r])))"
    by (simp add: merge_step_records map_update)
  show "\<exists>ys. merge_step ov (JArr (map DynamicsData_object rs)) r = Inr (Replaced (JArr ys)) \<and>
            length ys = length rs \<and>
            ys ! first_index (key r) rs = DynamicsData_object r \<and>
            (\<forall>j < length rs. j \<noteq> first_index (key r) rs \<longrightarrow> ys ! j = DynamicsData_object (rs ! j))"
    using m i by (intro exI [of _ "(map DynamicsData_object rs)[first_index (key r) rs := DynamicsData_object r]"]) simp
qed

theorem merge_step_frame_witness:
  "key \<lparr>key = ''dynbxb'', mergePartial = ''b'', content_type = ''b''\<rparr>
     \<in> set (map key [\<lparr>key = ''dynbxa'', mergePartial = ''a'', content_type = ''a''\<rparr>,
                      \<lparr>key = ''dynbxb'', mergePartial = ''old'', content_type = ''old''\<rparr>,
                      \<lparr>key = ''dynbxc'', mergePartial = ''c'', content_type = ''c''\<rparr>]) \<and>
   key \<lparr>key = ''dynbxd'', mergePartial = ''d'', content_type = ''d''\<rparr>
     \<notin> set (map key [\<lparr>key = ''dynbxa'', mergePartial = ''a'', content_type = ''a''\<rparr>]) \<and>
   merge_step False
     (JArr (map DynamicsData_object [\<lparr>key = ''dynbxa'', mergePartial = ''a'', content_type = ''a''\<rparr>]))
     \<lparr>key = ''dynbxd'', mergePartial = ''d'', content_type = ''d''\<rparr>
     = Inr (Added (JArr (map DynamicsData_object
                           [\<lparr>key = ''dynbxa'', mergePartial = ''a'', content_type = ''a''\<rparr>]
                         @ [DynamicsData_object \<lparr>key = ''dynbxd'', mergePartial = ''d'', content_type = ''d''\<rparr>]))) \<and>
   (\<exists>ys. merge_step True
            (JArr (map DynamicsData_object
                     [\<lparr>key = ''dynbxa'', mergePartial = ''a'', content_type = ''a''\<rparr>,
                      \<lparr>key = ''dynbxb'', mergePartial = ''old'', content_type = ''old''\<rparr>,
                      \<lparr>key = ''dynbxc'', mergePartial = ''c'', content_type = ''c''\<rparr>]))
            \<lparr>key = ''dynbxb'', mergePartial = ''b'', content_type = ''b''\<rparr>
            = Inr (Replaced (JArr ys)) \<and>
          length ys = 3 \<and>
          ys ! 1 = DynamicsData_object \<lparr>key = ''dynbxb'', mergePartial = ''b'', content_type = ''b''\<rparr> \<and>
          ys ! 0 = DynamicsData_object \<lparr>key = ''dynbxa'', mergePartial = ''a'', content_type = ''a''\<rparr> \<and>
          ys ! 2 = DynamicsData_object \<lparr>key = ''dynbxc'', mergePartial = ''c'', content_type = ''c''\<rparr>)"
proof -
  let ?a = "\<lparr>key = ''dynbxa'', mergePartial = ''a'', content_type = ''a''\<rparr>"
  let ?old = "\<lparr>key = ''dynbxb'', mergePartial = ''old'', content_type = ''old''\<rparr>"
  let ?b = "\<lparr>key = ''dynbxb'', mergePartial = ''b'', content_type = ''b''\<rparr>"
  let ?c = "\<lparr>key = ''dynbxc'', mergePartial = ''c'', content_type = ''c''\<rparr>"
  let ?d = "\<lparr>key = ''dynbxd'', mergePartial = ''d'', content_type = ''d''\<rparr>"
  have i: "first_index ''dynbxb'' [?a, ?old, ?c] = 1"
    by (simp add: first_index_def)
  have found: "key ?b \<in> set (map key [?a, ?old, ?c])" by simp
  have absent: "key ?d \<notin> set (map key [?a])" by simp
  from merge_step_frame [of ?d "[?a]" False] absent
  have added: "merge_step False (JArr (map DynamicsData_object [?a])) ?d
     = Inr (Added (JArr (map DynamicsData_object [?a] @ [DynamicsData_object ?d])))"
    by blast
  from merge_step_frame [of ?b "[?a, ?old, ?c]" True] found
  obtain ys where ys: "merge_step True (JArr (map DynamicsData_object [?a, ?old, ?c])) ?b = Inr (Replaced (JArr ys))"
     "length ys = length [?a, ?old, ?c]"
     "ys ! first_index (key ?b) [?a, ?old, ?c] = DynamicsData_object ?b"
     "\<forall>j < length [?a, ?old, ?c]. j \<noteq> first_index (key ?b) [?a, ?old, ?c] \<longrightarrow> ys ! j = DynamicsData_object ([?a, ?old, ?c] ! j)"
    by blast
  from ys(2) have l: "length ys = 3" by simp
  from ys(3) i have y1: "ys ! 1 = DynamicsData_object ?b" by simp
  from ys(4) i have y0: "ys ! 0 = DynamicsData_object ?a" by simp
  from ys(4) i have y2: "ys ! 2 = DynamicsData_object ?c" by simp
  show ?thesis using found absent added ys(1) l y1 y0 y2 by blast
qed

section \<open>Decoding\<close>

text \<open>
  Claim C7. For every format, \<^verbatim>\<open>parseDynamicsFile\<close> returns the empty array and prints
  nothing on a text that is empty after trimming; on any other text on which the
  format's parser throws (more generally, on which anything in the \<^verbatim>\<open>try\<close> block
  throws) it prints the error and returns the empty array. The function is total: its
  result is always a value and a world, never an exception.
\<close>

theorem parseDynamicsFile_tolerant:
  "(trim content = [] \<longrightarrow> parseDynamicsFile this L content w = (JArr [], w)) \<and>
   (trim content \<noteq> [] \<and> library_parse L (fileType this) content = Inl e \<longrightarrow>
      parseDynamicsFile this L content w
        = (JArr [], console_log (ErrorParsing (fileType this) e) w)) \<and>
   (trim content \<noteq> [] \<and> parseDynamicsFile_try this L content = Inl e \<longrightarrow>
      parseDynamicsFile this L content w
        = (JArr [], console_log (ErrorParsing (fileType this) e) w))"
  by (cases "fileType this")
     (simp_all add: parseDynamicsFile_def parseDynamicsFile_try_def library_parse_def)

theorem parseDynamicsFile_tolerant_witness:
  "trim [CHR 0x20, CHR 0x09, CHR 0x0A] = [] \<and>
   parseDynamicsFile (new_ContentBlockScaffolder empty_project ''hero_banner'' (Some json))
     \<lparr>yaml_parse = (\<lambda>s. Inr (JStr s)), yaml_stringify = (\<lambda>v. []),
      parseToml = (\<lambda>s. Inr JNull), stringifyToml = (\<lambda>v. []),
      JSON_parse = (\<lambda>s. Inl (ParseError s)), JSON_stringify = (\<lambda>v. [])\<rparr>
     [CHR 0x20, CHR 0x09, CHR 0x0A] empty_project = (JArr [], empty_project) \<and>
   trim ''{oops'' \<noteq> [] \<and>
   library_parse
     \<lparr>yaml_parse = (\<lambda>s. Inr (JStr s)), yaml_stringify = (\<lambda>v. []),
      parseToml = (\<lambda>s. Inr JNull), stringifyToml = (\<lambda>v. []),
      JSON_parse = (\<lambda>s. Inl (ParseError s)), JSON_stringify = (\<lambda>v. [])\<rparr>
     json ''{oops'' = Inl (ParseError ''{oops'') \<and>
   parseDynamicsFile (new_ContentBlockScaffolder empty_project ''hero_banner'' (Some json))
     \<lparr>yaml_parse = (\<lambda>s. Inr (JStr s)), yaml_stringify = (\<lambda>v. []),
      parseToml = (\<lambda>s. Inr JNull), stringifyToml = (\<lambda>v. []),
      JSON_parse = (\<lambda>s. Inl (ParseError s)), JSON_stringify = (\<lambda>v. [])\<rparr>
     ''{oops'' empty_project
     = (JArr [], console_log (ErrorParsing json (ParseError ''{oops'')) empty_project) \<and>
   parseDynamicsFile_try (new_ContentBlockScaffolder empty_project ''hero_banner'' (Some toml))
     \<lparr>yaml_parse = (\<lambda>s. Inr (JStr s)), yaml_stringify = (\<lambda>v. []),
      parseToml = (\<lambda>s. Inr JNull), stringifyToml = (\<lambda>v. []),
      JSON_parse = (\<lambda>s. Inl (ParseError s)), JSON_stringify = (\<lambda>v. [])\<rparr>
     ''{oops'' = Inl TypeError \<and>
   parseDynamicsFile (new_ContentBlockScaffolder empty_project ''hero_banner'' (Some toml))
     \<lparr>yaml_parse = (\<lambda>s. Inr (JStr s)), yaml_stringify = (\<lambda>v. []),
      parseToml = (\<lambda>s. Inr JNull), stringifyToml = (\<lambda>v. []),
      JSON_parse = (\<lambda>s. Inl (ParseError s)), JSON_stringify = (\<lambda>v. [])\<rparr>
     ''{oops'' empty_project
     = (JArr [], console_log (ErrorParsing toml TypeError) empty_project)"
proof -
  let ?s = "new_ContentBlockScaffolder empty_project ''hero_banner'' (Some json)"
  let ?t = "new_ContentBlockScaffolder empty_project ''hero_banner'' (Some toml)"
  let ?L = "\<lparr>yaml_parse = (\<lambda>s. Inr (JStr s)), yaml_stringify = (\<lambda>v. []),
      parseToml = (\<lambda>s. Inr JNull), stringifyToml = (\<lambda>v. []),
      JSON_parse = (\<lambda>s. Inl (ParseError s)), JSON_stringify = (\<lambda>v. [])\<rparr>"
  have blank: "trim [CHR 0x20, CHR 0x09, CHR 0x0A] = []"
    by (simp add: trim_def is_ws_def)
  have nonblank: "trim ''{oops'' \<noteq> []"
    by (simp add: trim_def is_ws_def)
  have ft: "fileType ?s = json" "fileType ?t = toml"
    by (simp_all add: new_ContentBlockScaffolder_def)
  have fails: "library_parse ?L json ''{oops'' = Inl (ParseError ''{oops'')"
    by (simp add: library_parse_def)
  have throws: "parseDynamicsFile_try ?t ?L ''{oops'' = Inl TypeError"
    by (simp add: parseDynamicsFile_try_def ft)
  show ?thesis
    using parseDynamicsFile_tolerant
        [where content = "[CHR 0x20, CHR 0x09, CHR 0x0A]" and this = ?s and L = ?L and w = empty_project]
      parseDynamicsFile_tolerant
        [where content = "''{oops''" and this = ?s and L = ?L and w = empty_project
           and e = "ParseError ''{oops''"]
      parseDynamicsFile_tolerant
        [where content = "''{oops''" and this = ?t and L = ?L and w = empty_project
           and e = TypeError]
      blank nonblank fails throws ft
    by simp
qed

text \<open>
  Claim C10. For toml, when the parsed document is a table, the result is the empty
  array only as a stand-in for a field \<^verbatim>\<open>dynamics\<close> that is absent or falsy; a truthy
  field is returned as it is, array or not. For yaml and json a parsed value that is
  not an array is replaced by the empty array.
\<close>

theorem toml_decode_keeps_truthy_field:
  "(fileType this = toml \<and> trim content \<noteq> [] \<and> parseToml L content = Inr (JObj kvs) \<longrightarrow>
      parseDynamicsFile this L content w =
        ((case map_of kvs ''dynamics'' of
            None \<Rightarrow> JArr []
          | Some dynamics \<Rightarrow> if truthy dynamics then dynamics else JArr []), w)) \<and>
   (fileType this = yaml \<and> trim content \<noteq> [] \<and> yaml_parse L content = Inr v \<longrightarrow>
      parseDynamicsFile this L content w = ((if isArray v then v else JArr []), w)) \<and>
   (fileType this = json \<and> trim content \<noteq> [] \<and> JSON_parse L content = Inr v \<longrightarrow>
      parseDynamicsFile this L content w = ((if isArray v then v else JArr []), w))"
  by (simp add: parseDynamicsFile_def parseDynamicsFile_try_def split: option.splits)

theorem toml_decode_keeps_truthy_field_witness:
  "fileType (new_ContentBlockScaffolder empty_project ''hero_banner'' (Some toml)) = toml \<and>
   trim ''[dynamics]'' \<noteq> [] \<and>
   parseDynamicsFile (new_ContentBlockScaffolder empty_project ''hero_banner'' (Some toml))
     \<lparr>yaml_parse = (\<lambda>s. Inr (JStr s)), yaml_stringify = (\<lambda>v. []),
      parseToml = (\<lambda>s. Inr (JObj [(''dynamics'', JObj [])])), stringifyToml = (\<lambda>v. []),
      JSON_parse = (\<lambda>s. Inr (JObj [(''dynamics'', JObj [])])), JSON_stringify = (\<lambda>v. [])\<rparr>
     ''[dynamics]'' empty_project = (JObj [], empty_project) \<and>
   parseDynamicsFile (new_ContentBlockScaffolder empty_project ''hero_banner'' (Some yaml))
     \<lparr>yaml_parse = (\<lambda>s. Inr (JStr s)), yaml_stringify = (\<lambda>v. []),
      parseToml = (\<lambda>s. Inr (JObj [(''dynamics'', JObj [])])), stringifyToml = (\<lambda>v. []),
      JSON_parse = (\<lambda>s. Inr (JObj [(''dynamics'', JObj [])])), JSON_stringify = (\<lambda>v. [])\<rparr>
     ''[dynamics]'' empty_project = (JArr [], empty_project) \<and>
   parseDynamicsFile (new_ContentBlockScaffolder empty_project ''hero_banner'' (Some json))
     \<lparr>yaml_parse = (\<lambda>s. Inr (JStr s)), yaml_stringify = (\<lambda>v. []),
      parseToml = (\<lambda>s. Inr (JObj [(''dynamics'', JObj [])])), stringifyToml = (\<lambda>v. []),
      JSON_parse = (\<lambda>s. Inr (JObj [(''dynamics'', JObj [])])), JSON_stringify = (\<lambda>v. [])\<rparr>
     ''[dynamics]'' empty_project = (JArr [], empty_project)"
proof -
  let ?L = "\<lparr>yaml_parse = (\<lambda>s. Inr (JStr s)), yaml_stringify = (\<lambda>v. []),
      parseToml = (\<lambda>s. Inr (JObj [(''dynamics'', JObj [])])), stringifyToml = (\<lambda>v. []),
      JSON_parse = (\<lambda>s. Inr (JObj [(''dynamics'', JObj [])])), JSON_stringify = (\<lambda>v. [])\<rparr>"
  have nonblank: "trim ''[dynamics]'' \<noteq> []"
    by (simp add: trim_def is_ws_def)
  have t: "fileType (new_ContentBlockScaffolder empty_project ''hero_banner'' (Some toml)) = toml"
    and y: "fileType (new_ContentBlockScaffolder empty_project ''hero_banner'' (Some yaml)) = yaml"
    and j: "fileType (new_ContentBlockScaffolder empty_project ''hero_banner'' (Some json)) = json"
    by (simp_all add: new_ContentBlockScaffolder_def)
  show ?thesis
    using toml_decode_keeps_truthy_field
            [where this = "new_ContentBlockScaffolder empty_project ''hero_banner'' (Some toml)"
               and content = "''[dynamics]''" and L = ?L and kvs = "[(''dynamics'', JObj [])]"
               and w = empty_project]
          toml_decode_keeps_truthy_field
            [where this = "new_ContentBlockScaffolder empty_project ''hero_banner'' (Some yaml)"
               and content = "''[dynamics]''" and L = ?L and v = "JStr ''[dynamics]''"
               and w = empty_project]
          toml_decode_keeps_truthy_field
            [where this = "new_ContentBlockScaffolder empty_project ''hero_banner'' (Some json)"
               and content = "''[dynamics]''" and L = ?L and v = "JObj [(''dynamics'', JObj [])]"
               and w = empty_project]
          nonblank t y j
    by simp
qed

section \<open>Format detection\<close>

text \<open>
  Claim C8. Without a format flag the constructor picks toml when
  \<^verbatim>\<open>dynamics.toml\<close> exists, else json when \<^verbatim>\<open>dynamics.json\<close> exists, else yaml (whether
  or not \<^verbatim>\<open>dynamics.yaml\<close> exists); with a flag it takes the flag.
\<close>

theorem detectFileType_priority:
  "fileType (new_ContentBlockScaffolder w name None) =
     (if existsSync w ''quiqr/model/includes/dynamics.toml'' then toml
      else if existsSync w ''quiqr/model/includes/dynamics.json'' then json
      else yaml) \<and>
   fileType (new_ContentBlockScaffolder w name (Some t)) = t"
  by (simp add: new_ContentBlockScaffolder_def detectFileType_def path_join_def)

theorem detectFileType_priority_witness:
  "fileType (new_ContentBlockScaffolder
               \<lparr>files = [''quiqr/model/includes/dynamics.yaml'' \<mapsto> ''[]'',
                          ''quiqr/model/includes/dynamics.json'' \<mapsto> ''[]'',
                          ''quiqr/model/includes/dynamics.toml'' \<mapsto> ''''],
                dirs = [''quiqr'', ''quiqr/model'', ''quiqr/model/includes''],
                console = []\<rparr> ''hero_banner'' None) = toml \<and>
   fileType (new_ContentBlockScaffolder
               \<lparr>files = [''quiqr/model/includes/dynamics.yaml'' \<mapsto> ''[]'',
                          ''quiqr/model/includes/dynamics.json'' \<mapsto> ''[]''],
                dirs = [''quiqr'', ''quiqr/model'', ''quiqr/model/includes''],
                console = []\<rparr> ''hero_banner'' None) = json \<and>
   fileType (new_ContentBlockScaffolder
               \<lparr>files = [''quiqr/model/includes/dynamics.yaml'' \<mapsto> ''[]''],
                dirs = [''quiqr'', ''quiqr/model'', ''quiqr/model/includes''],
                console = []\<rparr> ''hero_banner'' None) = yaml \<and>
   fileType (new_ContentBlockScaffolder empty_project ''hero_banner'' None) = yaml \<and>
   fileType (new_ContentBlockScaffolder
               \<lparr>files = [''quiqr/model/includes/dynamics.toml'' \<mapsto> ''''],
                dirs = [''quiqr'', ''quiqr/model'', ''quiqr/model/includes''],
                console = []\<rparr> ''hero_banner'' (Some json)) = json"
  using detectFileType_priority
          [of "\<lparr>files = [''quiqr/model/includes/dynamics.yaml'' \<mapsto> ''[]'',
                          ''quiqr/model/includes/dynamics.json'' \<mapsto> ''[]'',
                          ''quiqr/model/includes/dynamics.toml'' \<mapsto> ''''],
                dirs = [''quiqr'', ''quiqr/model'', ''quiqr/model/includes''],
                console = []\<rparr>" "''hero_banner''"]
        detectFileType_priority
          [of "\<lparr>files = [''quiqr/model/includes/dynamics.yaml'' \<mapsto> ''[]'',
                          ''quiqr/model/includes/dynamics.json'' \<mapsto> ''[]''],
                dirs = [''quiqr'', ''quiqr/model'', ''quiqr/model/includes''],
                console = []\<rparr>" "''hero_banner''"]
        detectFileType_priority
          [of "\<lparr>files = [''quiqr/model/includes/dynamics.yaml'' \<mapsto> ''[]''],
                dirs = [''quiqr'', ''quiqr/model'', ''quiqr/model/includes''],
                console = []\<rparr>" "''hero_banner''"]
        detectFileType_priority [of empty_project "''hero_banner''"]
        detectFileType_priority
          [of "\<lparr>files = [''quiqr/model/includes/dynamics.toml'' \<mapsto> ''''],
                dirs = [''quiqr'', ''quiqr/model'', ''quiqr/model/includes''],
                console = []\<rparr>" "''hero_banner''" json]
  by (simp add: existsSync_def empty_project_def)

section \<open>The registry updater on files\<close>

lemma findIndex_range:
  "findIndex p xs = Inr i \<Longrightarrow> i = - 1 \<or> (0 \<le> i \<and> i < int (length xs))"
proof (induction xs arbitrary: i)
  case Nil
  then show ?case by simp
next
  case (Cons x xs)
  then show ?case
    by (fastforce split: sum.splits if_splits)
qed

lemma findIndex_found:
  "\<exists>x \<in> set xs. p x = Inr True \<Longrightarrow> findIndex p xs \<noteq> Inr (- 1)"
proof (induction xs)
  case Nil
  then show ?case by simp
next
  case (Cons x xs)
  show ?case
  proof (cases "p x")
    case (Inl e)
    then show ?thesis by simp
  next
    case (Inr found)
    show ?thesis
    proof (cases found)
      case True
      with Inr show ?thesis by simp
    next
      case False
      with Inr Cons.prems have "\<exists>x \<in> set xs. p x = Inr True" by auto
      then have ih: "findIndex p xs \<noteq> Inr (- 1)" by (rule Cons.IH)
      show ?thesis
      proof (cases "findIndex p xs")
        case (Inl e)
        with Inr False show ?thesis by simp
      next
        case (Inr i)
        with ih findIndex_range [OF Inr] have "0 \<le> i" by auto
        with Inr \<open>p x = Inr found\<close> False show ?thesis by simp
      qed
    qed
  qed
qed

lemma merge_step_declined:
  assumes "\<exists>entry \<in> set entries. get_prop entry ''key'' = Inr (JStr (key r))"
  shows "merge_step False (JArr entries) r = Inr Declined \<or>
         merge_step False (JArr entries) r = Inl TypeError"
proof -
  from assms obtain entry where "entry \<in> set entries"
    and "get_prop entry ''key'' = Inr (JStr (key r))" by blast
  then have "entry \<in> set entries" and "entry_key_is (key r) entry = Inr True"
    by (simp_all add: entry_key_is_def)
  then have "\<exists>entry \<in> set entries. entry_key_is (key r) entry = Inr True"
    by blast
  then have nf: "findIndex (entry_key_is (key r)) entries \<noteq> Inr (- 1)"
    by (rule findIndex_found)
  have err: "findIndex (entry_key_is k) xs = Inl e \<Longrightarrow> e = TypeError" for k xs e
  proof (induction xs)
    case Nil
    then show ?case by simp
  next
    case (Cons x xs)
    then show ?case
      by (cases x) (auto simp: entry_key_is_def split: sum.splits if_splits option.splits)
  qed
  show ?thesis
  proof (cases "findIndex (entry_key_is (key r)) entries")
    case (Inl e)
    with err [OF Inl] show ?thesis by (simp add: merge_step_def)
  next
    case (Inr i)
    with nf show ?thesis by (simp add: merge_step_def)
  qed
qed

text \<open>
  Claim C5. When the registry file exists, its text decodes to an array one entry of
  which has the new record's key, and the overwrite prompt is declined,
  \<^verbatim>\<open>updateDynamicsFile\<close> writes nothing: every file, the registry among them, has the
  text it had before, and no directory is made. The call prints the skipping line and
  returns, or, when an entry before the match is \<^verbatim>\<open>null\<close>, the callback of \<^verbatim>\<open>findIndex\<close>
  throws; on an array of records it always returns.
\<close>

theorem declined_overwrite_leaves_file_unchanged:
  assumes "files w (dynamicsFilePath this) = Some content"
      and "fst (parseDynamicsFile this L content w) = JArr entries"
      and "\<exists>entry \<in> set entries. get_prop entry ''key'' = Inr (JStr (key (newDynamicsData this)))"
      and "\<not> overwriteEntry ans"
  shows "(updateDynamicsFile this L ans w = (None, console_log SkippingDynamicsUpdate w) \<or>
          updateDynamicsFile this L ans w = (Some TypeError, w)) \<and>
         files (snd (updateDynamicsFile this L ans w)) = files w \<and>
         dirs (snd (updateDynamicsFile this L ans w)) = dirs w"
proof -
  have ex: "existsSync w (dynamicsFilePath this)"
    using assms(1) by (simp add: existsSync_def)
  have rd: "readFileSync w (dynamicsFilePath this) = Inr content"
    using assms(1) by (simp add: readFileSync_def)
  have ne: "entries \<noteq> []" using assms(3) by auto
  have p: "parseDynamicsFile this L content w = (JArr entries, w)"
    using assms(2) ne
    by (auto simp: parseDynamicsFile_def split: if_splits sum.splits)
  from merge_step_declined [OF assms(3)] assms(4)
  have "merge_step (overwriteEntry ans) (JArr entries) (newDynamicsData this) = Inr Declined \<or>
        merge_step (overwriteEntry ans) (JArr entries) (newDynamicsData this) = Inl TypeError"
    by simp
  then have "updateDynamicsFile this L ans w = (None, console_log SkippingDynamicsUpdate w) \<or>
          updateDynamicsFile this L ans w = (Some TypeError, w)"
    using ex rd p by (auto simp: updateDynamicsFile_def)
  then show ?thesis by (auto simp: console_log_def)
qed

theorem declined_overwrite_leaves_file_unchanged_witness:
  "files \<lparr>files = [''quiqr/model/includes/dynamics.json'' \<mapsto> ''doc''],
           dirs = [''quiqr'', ''quiqr/model'', ''quiqr/model/includes''],
           console = []\<rparr>
     (dynamicsFilePath (new_ContentBlockScaffolder empty_project ''hero_banner'' (Some json)))
     = Some ''doc'' \<and>
   (\<exists>entry \<in> set [JObj [(''key'', JStr ''dynbxfooter'')],
                      JObj [(''key'', JStr ''dynbxherobanner''), (''_mergePartial'', JStr ''old''),
                            (''content_type'', JStr ''old''), (''label'', JStr ''Hero'')]].
      get_prop entry ''key''
        = Inr (JStr (key (newDynamicsData
                            (new_ContentBlockScaffolder empty_project ''hero_banner'' (Some json)))))) \<and>
   updateDynamicsFile (new_ContentBlockScaffolder empty_project ''hero_banner'' (Some json))
     \<lparr>yaml_parse = (\<lambda>s. Inr (JStr s)), yaml_stringify = (\<lambda>v. ''y''),
      parseToml = (\<lambda>s. Inr (JObj [])), stringifyToml = (\<lambda>v. ''t''),
      JSON_parse = (\<lambda>s. if s = ''doc''
                         then Inr (JArr [JObj [(''key'', JStr ''dynbxfooter'')],
                                         JObj [(''key'', JStr ''dynbxherobanner''),
                                               (''_mergePartial'', JStr ''old''),
                                               (''content_type'', JStr ''old''),
                                               (''label'', JStr ''Hero'')]])
                         else Inl (ParseError s)),
      JSON_stringify = (\<lambda>v. ''new'')\<rparr>
     \<lparr>createFile = True, overwriteEntry = False, themeName = None, selectTheme = None,
      overwriteHtml = False\<rparr>
     \<lparr>files = [''quiqr/model/includes/dynamics.json'' \<mapsto> ''doc''],
      dirs = [''quiqr'', ''quiqr/model'', ''quiqr/model/includes''],
      console = []\<rparr>
   = (None,
      \<lparr>files = [''quiqr/model/includes/dynamics.json'' \<mapsto> ''doc''],
       dirs = [''quiqr'', ''quiqr/model'', ''quiqr/model/includes''],
       console = [SkippingDynamicsUpdate]\<rparr>)"
proof -
  let ?s = "new_ContentBlockScaffolder empty_project ''hero_banner'' (Some json)"
  let ?es = "[JObj [(''key'', JStr ''dynbxfooter'')],
              JObj [(''key'', JStr ''dynbxherobanner''), (''_mergePartial'', JStr ''old''),
                    (''content_type'', JStr ''old''), (''label'', JStr ''Hero'')]]"
  let ?L = "\<lparr>yaml_parse = (\<lambda>s. Inr (JStr s)), yaml_stringify = (\<lambda>v. ''y''),
      parseToml = (\<lambda>s. Inr (JObj [])), stringifyToml = (\<lambda>v. ''t''),
      JSON_parse = (\<lambda>s. if s = ''doc'' then Inr (JArr ?es) else Inl (ParseError s)),
      JSON_stringify = (\<lambda>v. ''new'')\<rparr>"
  let ?ans = "\<lparr>createFile = True, overwriteEntry = False, themeName = None, selectTheme = None,
      overwriteHtml = False\<rparr>"
  let ?w = "\<lparr>files = [''quiqr/model/includes/dynamics.json'' \<mapsto> ''doc''],
      dirs = [''quiqr'', ''quiqr/model'', ''quiqr/model/includes''],
      console = []\<rparr>"
  have p: "dynamicsFilePath ?s = ''quiqr/model/includes/dynamics.json''"
    by (simp add: dynamicsFilePath_def new_ContentBlockScaffolder_def path_join_def)
  have k: "key (newDynamicsData ?s) = ''dynbxherobanner''"
    by (simp add: newDynamicsData_def new_ContentBlockScaffolder_def remove_underscores_def)
  have h1: "files ?w (dynamicsFilePath ?s) = Some ''doc''"
    by (simp add: p)
  have h2: "fst (parseDynamicsFile ?s ?L ''doc'' ?w) = JArr ?es"
    by (simp add: parseDynamicsFile_def parseDynamicsFile_try_def new_ContentBlockScaffolder_def
          trim_def is_ws_def)
  have h3: "\<exists>entry \<in> set ?es. get_prop entry ''key'' = Inr (JStr (key (newDynamicsData ?s)))"
    by (simp add: k)
  have h4: "\<not> overwriteEntry ?ans" by simp
  have ex: "existsSync ?w (dynamicsFilePath ?s)"
    using h1 by (simp add: existsSync_def)
  have rd: "readFileSync ?w (dynamicsFilePath ?s) = Inr ''doc''"
    using h1 by (simp add: readFileSync_def)
  have pr: "parseDynamicsFile ?s ?L ''doc'' ?w = (JArr ?es, ?w)"
    by (simp add: parseDynamicsFile_def parseDynamicsFile_try_def new_ContentBlockScaffolder_def
          trim_def is_ws_def)
  have m: "merge_step False (JArr ?es) (newDynamicsData ?s) = Inr Declined"
    by (simp add: merge_step_def entry_key_is_def k)
  have no_throw: "updateDynamicsFile ?s ?L ?ans ?w \<noteq> (Some TypeError, ?w)"
    by (simp add: updateDynamicsFile_def ex rd pr m)
  show ?thesis
    using declined_overwrite_leaves_file_unchanged [OF h1 h2 h3 h4] h1 h3 no_throw
    by (simp add: console_log_def)
qed

section \<open>Files and directories\<close>

lemma path_prefixes_length:
  "x \<in> set (path_prefixes p) \<Longrightarrow> length x \<le> length p"
  by (auto simp: path_prefixes_def)

lemma path_prefixes_self:
  "p \<in> set (path_prefixes p)"
  by (simp add: path_prefixes_def)

lemma path_prefixes_hd:
  assumes "x \<in> set (path_prefixes p)" and "p \<noteq> []"
  shows "x \<noteq> [] \<and> hd x = hd p"
proof -
  from assms(1) have "x = p \<or> (\<exists>i. 1 \<le> i \<and> i < length p \<and> x = take i p)"
    by (auto simp: path_prefixes_def)
  then show ?thesis
  proof
    assume "x = p"
    with assms(2) show ?thesis by simp
  next
    assume "\<exists>i. 1 \<le> i \<and> i < length p \<and> x = take i p"
    then obtain i where i: "1 \<le> i" "i < length p" "x = take i p" by blast
    then show ?thesis using assms(2) by (cases p; cases i) auto
  qed
qed

lemma prefixes_partials:
  "path_prefixes ''quiqr/model/partials'' = [''quiqr'', ''quiqr/model'', ''quiqr/model/partials'']"
  by code_simp

lemma prefixes_includes:
  "path_prefixes ''quiqr/model/includes'' = [''quiqr'', ''quiqr/model'', ''quiqr/model/includes'']"
  by code_simp

lemma dirname_dynamics:
  "path_dirname (dynamicsFilePath this) = ''quiqr/model/includes''"
  by (cases "fileType this") (simp_all add: path_dirname_def dynamicsFilePath_def path_join_def)

lemma path_dirname_append:
  assumes "CHR ''/'' \<notin> set name"
  shows "path_dirname (d @ ''/'' @ name) = d"
proof -
  have "dropWhile (\<lambda>c. c \<noteq> CHR ''/'') (rev name @ CHR ''/'' # rev d)
          = dropWhile (\<lambda>c. c \<noteq> CHR ''/'') (CHR ''/'' # rev d)"
    using assms by (intro dropWhile_append2) auto
  then have "dropWhile (\<lambda>c. c \<noteq> CHR ''/'') (rev name @ CHR ''/'' # rev d) = CHR ''/'' # rev d"
    by simp
  then show ?thesis by (simp add: path_dirname_def)
qed

lemma files_console_log [simp]: "files (console_log m w) = files w"
  and dirs_console_log [simp]: "dirs (console_log m w) = dirs w"
  by (simp_all add: console_log_def)

lemma existsSync_console_log [simp]: "existsSync (console_log m w) p = existsSync w p"
  by (simp add: existsSync_def)

lemma ensureDirectoryExists_ok:
  assumes "\<forall>d \<in> set (path_prefixes p). files w d = None"
  shows "ensureDirectoryExists p w =
           (None, if existsSync w p then w
                  else console_log (CreatedDirectory p)
                         (w\<lparr>dirs := dirs w @ filter (\<lambda>d. d \<notin> set (dirs w)) (path_prefixes p)\<rparr>))"
proof -
  have "filter (\<lambda>d. files w d \<noteq> None) (path_prefixes p) = []"
    using assms by (simp add: filter_empty_conv)
  then show ?thesis
    by (simp add: ensureDirectoryExists_def mkdirSync_def)
qed

lemma ensureDirectoryExists_made:
  assumes "\<forall>d \<in> set (path_prefixes p). files w d = None"
  shows "fst (ensureDirectoryExists p w) = None"
    and "files (snd (ensureDirectoryExists p w)) = files w"
    and "p \<in> set (dirs (snd (ensureDirectoryExists p w)))"
    and "set (dirs (snd (ensureDirectoryExists p w))) \<subseteq> set (dirs w) \<union> set (path_prefixes p)"
proof -
  note ok = ensureDirectoryExists_ok [OF assms]
  have none: "files w p = None" using assms path_prefixes_self by blast
  show "fst (ensureDirectoryExists p w) = None" by (simp add: ok)
  show "files (snd (ensureDirectoryExists p w)) = files w" by (simp add: ok)
  show "p \<in> set (dirs (snd (ensureDirectoryExists p w)))"
    using none path_prefixes_self [of p] by (auto simp: ok existsSync_def)
  show "set (dirs (snd (ensureDirectoryExists p w))) \<subseteq> set (dirs w) \<union> set (path_prefixes p)"
    by (auto simp: ok)
qed

lemma writeFileSync_new:
  assumes "files w p = None" and "p \<notin> set (dirs w)" and "path_dirname p \<in> set (dirs w)"
  shows "writeFileSync p content w = Inr (w\<lparr>files := (files w)(p \<mapsto> content)\<rparr>)"
  using assms by (simp add: writeFileSync_def)


lemma createHtmlFile_fresh:
  assumes "\<not> existsSync w ''themes''"
      and "themeName ans = Some answer"
      and "trim answer \<noteq> []"
      and "CHR ''/'' \<notin> set (blockNameWithDashes this)"
      and "files w (''themes/'' @ trim answer @ ''/layouts/partials/content_blocks/''
                       @ blockNameWithDashes this @ ''.html'') = None"
      and "\<forall>d \<in> set (dirs w). length d \<le> 27"
      and "\<forall>d \<in> set (path_prefixes (''themes/'' @ trim answer @ ''/layouts/partials/content_blocks'')).
             files w d = None"
  shows "fst (createHtmlFile this ans w) = None \<and>
         files (snd (snd (createHtmlFile this ans w))) =
           (files w)(''themes/'' @ trim answer @ ''/layouts/partials/content_blocks/''
                       @ blockNameWithDashes this @ ''.html'' \<mapsto> htmlContent this)"
proof -
  define dir where "dir = ''themes/'' @ trim answer @ ''/layouts/partials/content_blocks''"
  define name where "name = blockNameWithDashes this @ ''.html''"
  define fpath where "fpath = dir @ ''/'' @ name"
  define w1 where "w1 = console_log ThemesDirectoryMissing w"
  define w2 where "w2 = snd (ensureDirectoryExists dir w1)"
  have a: "answer \<noteq> []" using assms(3) by (auto simp: trim_def)
  have theme: "getThemeDirectory ans w = (Inr (trim answer), w1)"
    using assms(1,2) a by (simp add: getThemeDirectory_def askThemeName_def w1_def)
  have dir_eq: "path_join [''themes'', trim answer, ''layouts'', ''partials'', ''content_blocks''] = dir"
    using assms(3) by (simp add: path_join_def dir_def)
  have dir_ne: "dir \<noteq> []" by (simp add: dir_def)
  have file_eq: "path_join [dir, name] = fpath"
    using dir_ne by (simp add: path_join_def fpath_def name_def)
  have file_text: "fpath = ''themes/'' @ trim answer @ ''/layouts/partials/content_blocks/''
                       @ blockNameWithDashes this @ ''.html''"
    by (simp add: fpath_def dir_def name_def)
  have no_slash: "CHR ''/'' \<notin> set name"
    using assms(4) by (simp add: name_def)
  have parent: "path_dirname fpath = dir"
    unfolding fpath_def using no_slash by (rule path_dirname_append)
  have longer: "length dir < length fpath" by (simp add: fpath_def)
  have long: "27 < length fpath" by (simp add: fpath_def dir_def)
  have clear: "\<forall>d \<in> set (path_prefixes dir). files w1 d = None"
    using assms(7) by (simp add: dir_def w1_def)
  note made = ensureDirectoryExists_made [OF clear, folded w2_def]
  have ens: "ensureDirectoryExists dir w1 = (None, w2)"
    using made(1) by (simp add: w2_def prod_eq_iff)
  have files2: "files w2 = files w"
    using made(2) by (simp add: w1_def)
  have "fpath \<notin> set (dirs w2)"
  proof
    assume "fpath \<in> set (dirs w2)"
    with made(4) have "fpath \<in> set (dirs w) \<or> fpath \<in> set (path_prefixes dir)"
      by (auto simp: w1_def)
    then show False
      using assms(6) long longer path_prefixes_length [of fpath dir] by fastforce
  qed
  moreover have none: "files w2 fpath = None"
    using assms(5) by (simp add: files2 file_text)
  ultimately have fresh: "\<not> existsSync w2 fpath" and nodir: "fpath \<notin> set (dirs w2)"
    by (simp_all add: existsSync_def)
  have wr: "writeFileSync fpath (htmlContent this) w2
              = Inr (w2\<lparr>files := (files w2)(fpath \<mapsto> htmlContent this)\<rparr>)"
    using none nodir made(3) parent by (intro writeFileSync_new) simp_all
  have "createHtmlFile this ans w =
          (None, this\<lparr>selectedTheme := Some (trim answer)\<rparr>,
           console_log (CreatedHtml fpath) (w2\<lparr>files := (files w2)(fpath \<mapsto> htmlContent this)\<rparr>))"
    using theme ens fresh wr
    by (simp add: createHtmlFile_def Let_def dir_eq name_def [symmetric] file_eq)
  then show ?thesis by (simp add: files2 file_text)
qed

lemma dynamicsFilePath_text:
  "dynamicsFilePath this = ''quiqr/model/includes/dynamics.'' @ file_type_name (fileType this)"
  by (simp add: dynamicsFilePath_def path_join_def)

lemma updateDynamicsFile_create:
  assumes "\<not> existsSync w (dynamicsFilePath this)" and "createFile ans"
      and "files w ''quiqr'' = None" and "files w ''quiqr/model'' = None"
      and "files w ''quiqr/model/includes'' = None"
  shows "fst (updateDynamicsFile this L ans w) = None"
    and "files (snd (updateDynamicsFile this L ans w)) =
           (files w)(dynamicsFilePath this \<mapsto>
              stringifyDynamicsData this L (JArr [DynamicsData_object (newDynamicsData this)]))"
    and "set (dirs (snd (updateDynamicsFile this L ans w)))
           \<subseteq> set (dirs w) \<union> {''quiqr'', ''quiqr/model'', ''quiqr/model/includes''}"
proof -
  define w1 where "w1 = snd (ensureDirectoryExists ''quiqr/model/includes'' w)"
  let ?p = "dynamicsFilePath this"
  let ?w2 = "console_log (CreatedDynamicsFile ?p) w1"
  let ?new = "stringifyDynamicsData this L (JArr [DynamicsData_object (newDynamicsData this)])"
  have clear: "\<forall>d \<in> set (path_prefixes ''quiqr/model/includes''). files w d = None"
    using assms(3-5) by (simp add: prefixes_includes)
  note made = ensureDirectoryExists_made [OF clear, folded w1_def]
  have ens: "ensureDirectoryExists ''quiqr/model/includes'' w = (None, w1)"
    using made(1) by (simp add: w1_def prod_eq_iff)
  have long: "20 < length ?p"
    by (simp add: dynamicsFilePath_text)
  have absent: "files w ?p = None" "?p \<notin> set (dirs w)"
    using assms(1) by (simp_all add: existsSync_def)
  have "?p \<notin> set (dirs w1)"
  proof
    assume "?p \<in> set (dirs w1)"
    with made(4) absent(2) have "?p \<in> set (path_prefixes ''quiqr/model/includes'')" by blast
    from path_prefixes_length [OF this] long show False by simp
  qed
  then have nodir: "?p \<notin> set (dirs ?w2)" by simp
  have nofile: "files ?w2 ?p = None"
    using absent(1) made(2) by simp
  have parent: "path_dirname ?p \<in> set (dirs ?w2)"
    using made(3) by (simp add: dirname_dynamics)
  have wr: "writeFileSync ?p ?new ?w2 = Inr (?w2\<lparr>files := (files ?w2)(?p \<mapsto> ?new)\<rparr>)"
    using nofile nodir parent by (rule writeFileSync_new)
  have run: "updateDynamicsFile this L ans w = (None, ?w2\<lparr>files := (files ?w2)(?p \<mapsto> ?new)\<rparr>)"
    using assms(1,2) ens wr
    by (simp add: updateDynamicsFile_def writeDynamicsFile_def dirname_dynamics)
  show "fst (updateDynamicsFile this L ans w) = None"
    by (simp add: run)
  show "files (snd (updateDynamicsFile this L ans w)) = (files w)(?p \<mapsto> ?new)"
    using made(2) by (simp add: run)
  show "set (dirs (snd (updateDynamicsFile this L ans w)))
           \<subseteq> set (dirs w) \<union> {''quiqr'', ''quiqr/model'', ''quiqr/model/includes''}"
    using made(4) by (simp add: run prefixes_includes)
qed

lemma createContentFile_fresh:
  assumes "files w ''quiqr'' = None" and "files w ''quiqr/model'' = None"
      and "files w ''quiqr/model/partials'' = None"
      and "CHR ''/'' \<notin> set (blockName this)"
      and "\<not> existsSync w (''quiqr/model/partials/'' @ blockName this @ ''.''
                              @ file_type_name (fileType this))"
  shows "fst (createContentFile this L w) = None"
    and "files (snd (createContentFile this L w)) =
           (files w)(''quiqr/model/partials/'' @ blockName this @ ''.''
                       @ file_type_name (fileType this)
              \<mapsto> (case fileType this of
                    yaml \<Rightarrow> yaml_stringify L contentData
                  | toml \<Rightarrow> stringifyToml L contentData
                  | json \<Rightarrow> JSON_stringify L contentData))"
    and "set (dirs (snd (createContentFile this L w)))
           \<subseteq> set (dirs w) \<union> {''quiqr'', ''quiqr/model'', ''quiqr/model/partials''}"
proof -
  define w1 where "w1 = snd (ensureDirectoryExists ''quiqr/model/partials'' w)"
  let ?name = "blockName this @ ''.'' @ file_type_name (fileType this)"
  let ?p = "''quiqr/model/partials'' @ ''/'' @ ?name"
  let ?content = "case fileType this of
                    yaml \<Rightarrow> yaml_stringify L contentData
                  | toml \<Rightarrow> stringifyToml L contentData
                  | json \<Rightarrow> JSON_stringify L contentData"
  have p_join: "path_join [''quiqr/model/partials'', ?name] = ?p"
    by (simp add: path_join_def)
  have dir_join: "path_join [''quiqr'', ''model'', ''partials''] = ''quiqr/model/partials''"
    by (simp add: path_join_def)
  have clear: "\<forall>d \<in> set (path_prefixes ''quiqr/model/partials''). files w d = None"
    using assms(1-3) by (simp add: prefixes_partials)
  note made = ensureDirectoryExists_made [OF clear, folded w1_def]
  have ens: "ensureDirectoryExists ''quiqr/model/partials'' w = (None, w1)"
    using made(1) by (simp add: w1_def prod_eq_iff)
  have no_slash: "CHR ''/'' \<notin> set ?name"
    using assms(4) by (cases "fileType this") simp_all
  have parent: "path_dirname ?p = ''quiqr/model/partials''"
    using no_slash by (rule path_dirname_append)
  have long: "20 < length ?p" by simp
  have absent: "files w ?p = None" "?p \<notin> set (dirs w)"
    using assms(5) by (simp_all add: existsSync_def)
  have nodir: "?p \<notin> set (dirs w1)"
  proof
    assume "?p \<in> set (dirs w1)"
    with made(4) absent(2) have "?p \<in> set (path_prefixes ''quiqr/model/partials'')" by blast
    from path_prefixes_length [OF this] long show False by simp
  qed
  have nofile: "files w1 ?p = None"
    using absent(1) made(2) by simp
  have wr: "writeFileSync ?p ?content w1 = Inr (w1\<lparr>files := (files w1)(?p \<mapsto> ?content)\<rparr>)"
    using nofile nodir made(3) parent by (intro writeFileSync_new) simp_all
  have run: "createContentFile this L w =
               (None, console_log (CreatedContentFile (fileType this) ?p)
                        (w1\<lparr>files := (files w1)(?p \<mapsto> ?content)\<rparr>))"
    unfolding createContentFile_def Let_def dir_join p_join
    using ens wr by simp
  show "fst (createContentFile this L w) = None"
    by (simp add: run)
  show "files (snd (createContentFile this L w)) =
           (files w)(''quiqr/model/partials/'' @ blockName this @ ''.''
                       @ file_type_name (fileType this) \<mapsto> ?content)"
    using made(2) by (simp add: run)
  show "set (dirs (snd (createContentFile this L w)))
           \<subseteq> set (dirs w) \<union> {''quiqr'', ''quiqr/model'', ''quiqr/model/partials''}"
    using made(4) by (simp add: run prefixes_partials)
qed

section \<open>The registry updater on an existing file\<close>







section \<open>Upsert on an empty registry\<close>




section \<open>Repeated upsert\<close>




section \<open>A whole run\<close>

text \<open>
  Claim C9. Block name \<^verbatim>\<open>hero_banner\<close>, format json, an empty project, the creation of
  the registry confirmed and a plain theme name given: the run ends with status 0 and
  the project holds exactly three files, the content definition
  \<^verbatim>\<open>quiqr/model/partials/hero_banner.json\<close> (the JSON text of one field with empty
  \<^verbatim>\<open>key\<close>, \<^verbatim>\<open>title\<close> and \<^verbatim>\<open>type\<close>), the registry \<^verbatim>\<open>quiqr/model/includes/dynamics.json\<close>
  (the JSON text of the array of the single record with key \<^verbatim>\<open>dynbxherobanner\<close>), and
  the template \<^verbatim>\<open>hero-banner.html\<close> under the theme's \<^verbatim>\<open>layouts/partials/content_blocks\<close>,
  whose text has a \<^verbatim>\<open>div\<close> of class \<^verbatim>\<open>hero-banner-block\<close>.
\<close>

theorem hero_banner_json_scenario:
  assumes "themeName ans = Some answer"
      and "plain_name (trim answer)"
      and "createFile ans"
  shows "fst (scaffold (new_ContentBlockScaffolder empty_project ''hero_banner'' (Some json))
                L ans empty_project) = 0 \<and>
         files (snd (scaffold (new_ContentBlockScaffolder empty_project ''hero_banner'' (Some json))
                       L ans empty_project)) =
           [''quiqr/model/partials/hero_banner.json'' \<mapsto>
              JSON_stringify L
                (JObj [(''fields'',
                        JArr [JObj [(''key'', JStr ''''), (''title'', JStr ''''), (''type'', JStr '''')]])]),
            ''quiqr/model/includes/dynamics.json'' \<mapsto>
              JSON_stringify L
                (JArr [JObj [(''key'', JStr ''dynbxherobanner''),
                             (''_mergePartial'', JStr ''hero_banner''),
                             (''content_type'', JStr ''hero_banner'')]]),
            ''themes/'' @ trim answer @ ''/layouts/partials/content_blocks/hero-banner.html'' \<mapsto>
              ''<!-- hero_banner block template -->'' @ [CHR 0x0A] @
              ''  <div class='' @ [CHR 0x22] @ ''hero-banner-block'' @ [CHR 0x22] @ ''>'' @ [CHR 0x0A] @
              ''    <!-- Add your hero_banner block content here -->'' @ [CHR 0x0A] @
              ''  </div>'' @ [CHR 0x0A] @
              ''  '']"
proof -
  define s where "s = new_ContentBlockScaffolder empty_project ''hero_banner'' (Some json)"
  define w0 where "w0 = console_log Rule
                          (console_log (UsingFileType (fileType s))
                             (console_log (ScaffoldingBlock (blockName s)) empty_project))"
  define r1 where "r1 = createContentFile s L w0"
  define w1 where "w1 = snd r1"
  define r2 where "r2 = updateDynamicsFile s L ans w1"
  define w2 where "w2 = snd r2"
  define r3 where "r3 = createHtmlFile s ans w2"
  have fields: "blockName s = ''hero_banner''" "fileType s = json"
    "blockNameWithDashes s = ''hero-banner''" "blockNameWithoutUnderscores s = ''herobanner''"
    by (simp_all add: s_def new_ContentBlockScaffolder_def underscores_to_dashes_def
          remove_underscores_def)
  have t: "trim answer \<noteq> []"
    using assms(2) by (simp add: plain_name_def)
  have dyn: "dynamicsFilePath s = ''quiqr/model/includes/dynamics.json''"
    by (simp add: dynamicsFilePath_text fields)
  have new: "DynamicsData_object (newDynamicsData s) =
               JObj [(''key'', JStr ''dynbxherobanner''),
                     (''_mergePartial'', JStr ''hero_banner''),
                     (''content_type'', JStr ''hero_banner'')]"
    by (simp add: DynamicsData_object_def newDynamicsData_def fields)
  have files0: "files w0 = Map.empty" and dirs0: "dirs w0 = []"
    by (simp_all add: w0_def empty_project_def)
  have step1: "fst r1 = None"
    and files1: "files w1 = [''quiqr/model/partials/hero_banner.json'' \<mapsto> JSON_stringify L contentData]"
    and dirs1: "set (dirs w1) \<subseteq> {''quiqr'', ''quiqr/model'', ''quiqr/model/partials''}"
    using createContentFile_fresh [of w0 s L]
    by (simp_all add: r1_def w1_def files0 dirs0 fields existsSync_def)
  have absent: "\<not> existsSync w1 (dynamicsFilePath s)"
    using dirs1 by (auto simp: existsSync_def files1 dyn)
  have step2: "fst r2 = None"
    and files2: "files w2 =
      [''quiqr/model/partials/hero_banner.json'' \<mapsto> JSON_stringify L contentData,
       ''quiqr/model/includes/dynamics.json'' \<mapsto>
          JSON_stringify L (JArr [DynamicsData_object (newDynamicsData s)])]"
    and dirs2': "set (dirs w2)
           \<subseteq> set (dirs w1) \<union> {''quiqr'', ''quiqr/model'', ''quiqr/model/includes''}"
    using updateDynamicsFile_create [OF absent assms(3), of L]
    by (simp_all add: r2_def w2_def files1 dyn stringifyDynamicsData_def fields)
  have dirs2: "set (dirs w2)
           \<subseteq> {''quiqr'', ''quiqr/model'', ''quiqr/model/partials'', ''quiqr/model/includes''}"
    using dirs1 dirs2' by auto
  have no_themes: "\<not> existsSync w2 ''themes''"
    using dirs2 by (auto simp: existsSync_def files2)
  have no_slash: "CHR ''/'' \<notin> set (blockNameWithDashes s)"
    by (simp add: fields)
  have no_html: "files w2 (''themes/'' @ trim answer @ ''/layouts/partials/content_blocks/''
                            @ blockNameWithDashes s @ ''.html'') = None"
    by (simp add: files2)
  have short: "\<forall>d \<in> set (dirs w2). length d \<le> 27"
    using dirs2 by auto
  have clear: "\<forall>d \<in> set (path_prefixes (''themes/'' @ trim answer
                                           @ ''/layouts/partials/content_blocks'')).
                 files w2 d = None"
  proof
    fix d
    assume "d \<in> set (path_prefixes (''themes/'' @ trim answer
                                      @ ''/layouts/partials/content_blocks''))"
    from path_prefixes_hd [OF this] have "d \<noteq> []" and "hd d = CHR ''t''" by simp_all
    then show "files w2 d = None"
      by (cases d) (auto simp: files2)
  qed
  note html = createHtmlFile_fresh [OF no_themes assms(1) t no_slash no_html short clear,
      folded r3_def]
  obtain e3 s3 w3 where r3: "r3 = (e3, s3, w3)"
    by (cases r3) auto
  have e3: "e3 = None" using html r3 by simp
  have files3: "files w3 =
      (files w2)(''themes/'' @ trim answer @ ''/layouts/partials/content_blocks/''
                   @ blockNameWithDashes s @ ''.html'' \<mapsto> htmlContent s)"
    using html r3 by simp
  have run1: "createContentFile s L w0 = (None, w1)"
    using step1 by (simp add: r1_def w1_def prod_eq_iff)
  have run2: "updateDynamicsFile s L ans w1 = (None, w2)"
    using step2 by (simp add: r2_def w2_def prod_eq_iff)
  have status: "fst (scaffold s L ans empty_project) = 0"
    and final: "files (snd (scaffold s L ans empty_project)) = files w3"
    using run1 run2 r3 e3
    by (simp_all add: scaffold_def Let_def w0_def [symmetric] r3_def [symmetric])
  have html_text: "htmlContent s =
      ''<!-- hero_banner block template -->'' @ [CHR 0x0A] @
      ''  <div class='' @ [CHR 0x22] @ ''hero-banner-block'' @ [CHR 0x22] @ ''>'' @ [CHR 0x0A] @
      ''    <!-- Add your hero_banner block content here -->'' @ [CHR 0x0A] @
      ''  </div>'' @ [CHR 0x0A] @
      ''  ''"
    by (simp add: htmlContent_def fields)
  show ?thesis
    unfolding s_def [symmetric]
    by (simp add: status final files3 files2 new html_text fields) (simp add: contentData_def)
qed

theorem hero_banner_json_scenario_witness:
  "themeName \<lparr>createFile = True, overwriteEntry = True, themeName = Some '' quiqr-theme '',
               selectTheme = None, overwriteHtml = True\<rparr> = Some '' quiqr-theme '' \<and>
   plain_name (trim '' quiqr-theme '') \<and>
   fst (scaffold (new_ContentBlockScaffolder empty_project ''hero_banner'' (Some json))
          \<lparr>yaml_parse = (\<lambda>s. Inr (JStr s)), yaml_stringify = (\<lambda>v. ''y''),
           parseToml = (\<lambda>s. Inr (JObj [])), stringifyToml = (\<lambda>v. ''t''),
           JSON_parse = (\<lambda>s. Inl (ParseError s)),
           JSON_stringify = (\<lambda>v. if isArray v then ''registry'' else ''fields'')\<rparr>
          \<lparr>createFile = True, overwriteEntry = True, themeName = Some '' quiqr-theme '',
           selectTheme = None, overwriteHtml = True\<rparr>
          empty_project) = 0 \<and>
   files (snd (scaffold (new_ContentBlockScaffolder empty_project ''hero_banner'' (Some json))
          \<lparr>yaml_parse = (\<lambda>s. Inr (JStr s)), yaml_stringify = (\<lambda>v. ''y''),
           parseToml = (\<lambda>s. Inr (JObj [])), stringifyToml = (\<lambda>v. ''t''),
           JSON_parse = (\<lambda>s. Inl (ParseError s)),
           JSON_stringify = (\<lambda>v. if isArray v then ''registry'' else ''fields'')\<rparr>
          \<lparr>createFile = True, overwriteEntry = True, themeName = Some '' quiqr-theme '',
           selectTheme = None, overwriteHtml = True\<rparr>
          empty_project))
     ''themes/quiqr-theme/layouts/partials/content_blocks/hero-banner.html''
     = Some (''<!-- hero_banner block template -->'' @ [CHR 0x0A] @
             ''  <div class='' @ [CHR 0x22] @ ''hero-banner-block'' @ [CHR 0x22] @ ''>'' @ [CHR 0x0A] @
             ''    <!-- Add your hero_banner block content here -->'' @ [CHR 0x0A] @
             ''  </div>'' @ [CHR 0x0A] @
             ''  '')"
proof -
  let ?L = "\<lparr>yaml_parse = (\<lambda>s. Inr (JStr s)), yaml_stringify = (\<lambda>v. ''y''),
           parseToml = (\<lambda>s. Inr (JObj [])), stringifyToml = (\<lambda>v. ''t''),
           JSON_parse = (\<lambda>s. Inl (ParseError s)),
           JSON_stringify = (\<lambda>v. if isArray v then ''registry'' else ''fields'')\<rparr>"
  let ?ans = "\<lparr>createFile = True, overwriteEntry = True, themeName = Some '' quiqr-theme '',
           selectTheme = None, overwriteHtml = True\<rparr>"
  have tr: "trim '' quiqr-theme '' = ''quiqr-theme''"
    by (simp add: trim_def is_ws_def)
  have h1: "themeName ?ans = Some '' quiqr-theme ''" by simp
  have h2: "plain_name (trim '' quiqr-theme '')"
    by (simp add: tr plain_name_def)
  have h3: "createFile ?ans" by simp
  show ?thesis
    using hero_banner_json_scenario [OF h1 h2 h3, of ?L] h2
    by (simp add: tr)
qed

end
